theory Spec2Isabelle
  imports Complex_Main "HOL-Library.Char_ord" "HOL-Library.List_Lexorder" "HOL-Library.Multiset"
begin

section \<open>Python values\<close>

text \<open>
  A Python \<open>str\<close> is a sequence of Unicode code points: slicing, \<open>len\<close>, \<open>strip\<close> and the
  comparison used by \<open>sorted\<close> all work on code points. The model therefore takes a string
  to be a list of code points (naturals); \<open>ustr\<close> turns a literal into one. The order on
  lists is the lexicographic one, which is how Python compares two strings.
\<close>

type_synonym pystr = "nat list"

definition ustr :: "string \<Rightarrow> pystr" where
  "ustr s = map of_char s"

text \<open>
  The code points for which \<open>str.isspace\<close> holds; \<open>str.strip()\<close> removes them from both
  ends.
\<close>

definition is_space :: "nat \<Rightarrow> bool" where
  "is_space c \<longleftrightarrow>
     c \<in> {9, 10, 11, 12, 13, 28, 29, 30, 31, 32, 133, 160, 5760, 8232, 8233, 8239, 8287, 12288}
     \<or> (8192 \<le> c \<and> c \<le> 8202)"

definition strip :: "pystr \<Rightarrow> pystr" where
  "strip s = rev (dropWhile is_space (rev (dropWhile is_space s)))"

text \<open>
  What \<open>json.loads\<close> returns, and what \<open>json.dumps\<close> is given. A dict is the list of its
  items with \<open>map_of\<close> as lookup. Response bodies are kept as the value handed to
  \<open>json.dumps\<close>.
\<close>

datatype json =
    JNull
  | JBool bool
  | JInt int
  | JFloat real
  | JStr pystr
  | JArr "json list"
  | JObj "(pystr \<times> json) list"

text \<open>
  Exceptions. \<open>ClientError code message\<close> is botocore's, the only one the chat proxy tells
  apart; \<open>OtherError\<close> stands for any failure of an external service that is not one.
\<close>

datatype exn =
    TypeError
  | AttributeError
  | KeyError
  | IndexError
  | ValueError
  | ClientError pystr pystr
  | OtherError pystr

definition bind_exn :: "exn + 'a \<Rightarrow> ('a \<Rightarrow> exn + 'b) \<Rightarrow> exn + 'b" where
  "bind_exn m f = (case m of Inl e \<Rightarrow> Inl e | Inr x \<Rightarrow> f x)"

text \<open>Truth value of a value, as \<open>not v\<close> tests it.\<close>

fun truthy :: "json \<Rightarrow> bool" where
  "truthy JNull = False"
| "truthy (JBool b) = b"
| "truthy (JInt n) = (n \<noteq> 0)"
| "truthy (JFloat r) = (r \<noteq> 0)"
| "truthy (JStr s) = (s \<noteq> [])"
| "truthy (JArr xs) = (xs \<noteq> [])"
| "truthy (JObj kvs) = (kvs \<noteq> [])"

text \<open>\<open>k in s\<close> for two strings: \<open>k\<close> occurs in \<open>s\<close> as a contiguous run.\<close>

primrec substr_in :: "pystr \<Rightarrow> pystr \<Rightarrow> bool" where
  "substr_in k [] = (k = [])"
| "substr_in k (c # cs) = (take (length k) (c # cs) = k \<or> substr_in k cs)"

text \<open>
  \<open>k in data\<close> for a string \<open>k\<close>: a key of a dict, an element of a list, a substring of a
  string; any other value is not iterable and the test raises.
\<close>

fun py_in :: "pystr \<Rightarrow> json \<Rightarrow> exn + bool" where
  "py_in k (JObj kvs) = Inr (k \<in> fst ` set kvs)"
| "py_in k (JArr xs) = Inr (JStr k \<in> set xs)"
| "py_in k (JStr s) = Inr (substr_in k s)"
| "py_in k _ = Inl TypeError"

text \<open>\<open>d[k]\<close> with a string \<open>k\<close>: only a dict can be indexed by a string.\<close>

fun py_getitem :: "json \<Rightarrow> pystr \<Rightarrow> exn + json" where
  "py_getitem (JObj kvs) k = (case map_of kvs k of None \<Rightarrow> Inl KeyError | Some v \<Rightarrow> Inr v)"
| "py_getitem _ k = Inl TypeError"

fun py_keys :: "json \<Rightarrow> exn + pystr list" where
  "py_keys (JObj kvs) = Inr (map fst kvs)"
| "py_keys _ = Inl AttributeError"

text \<open>
  The dict a handler returns. The quote fetcher's responses have no \<open>headers\<close> key, and
  only some of the chat proxy's have \<open>isBase64Encoded\<close>: an absent key is \<open>None\<close>.
\<close>

record response =
  statusCode :: int
  isBase64Encoded :: "bool option"
  headers :: "(pystr \<times> pystr) list option"
  body :: json

section \<open>The quote fetcher (lambda\_function.py)\<close>

text \<open>
  The services the handler calls, as one invocation sees them: the secret store (the API
  key, or the exception of lines 7 to 9), \<open>str.upper\<close>, the HTTP GET with the decoding
  of its body (line 16 and 17, or the exception caught at line 18), \<open>str\<close> of an
  exception, the coercions \<open>float\<close> and \<open>int\<close>, and the object store's put (an exception,
  or none).
\<close>

record quote_env =
  secret_api_key :: "exn + pystr"
  upper :: "pystr \<Rightarrow> pystr"
  urlopen_json :: "pystr \<Rightarrow> exn + json"
  str_exc :: "exn \<Rightarrow> pystr"
  float_of :: "json \<Rightarrow> exn + real"
  int_of :: "json \<Rightarrow> exn + int"
  put_object :: "pystr \<Rightarrow> pystr \<Rightarrow> json \<Rightarrow> exn option"

definition plain :: "int \<Rightarrow> json \<Rightarrow> response" where
  "plain code b = \<lparr>statusCode = code, isBase64Encoded = None, headers = None, body = b\<rparr>"

definition query_url :: "pystr \<Rightarrow> pystr \<Rightarrow> pystr" where
  "query_url symbol api_key =
     ustr ''https://www.alphavantage.co/query?function=TIME_SERIES_DAILY_ADJUSTED&symbol=''
     @ symbol @ ustr ''&apikey='' @ api_key @ ustr ''&outputsize=compact''"

definition rate_limit_text :: pystr where
  "rate_limit_text =
     ustr ''Alpha Vantage rate limit '' @ [8211]
     @ ustr '' wait 60 seconds or use a different key''"

text \<open>Lines 32 to 44: the success path up to the result dict.\<close>

definition daily_bar :: "quote_env \<Rightarrow> pystr \<Rightarrow> json \<Rightarrow> exn + json" where
  "daily_bar env symbol data =
     bind_exn (py_getitem data (ustr ''Time Series (Daily)'')) (\<lambda>time_series.
     bind_exn (py_keys time_series) (\<lambda>keys.
     case sort keys of
       [] \<Rightarrow> Inl IndexError
     | latest_date # _ \<Rightarrow>
         bind_exn (py_getitem time_series latest_date) (\<lambda>latest.
         bind_exn (bind_exn (py_getitem latest (ustr ''1. open'')) (float_of env)) (\<lambda>v_open.
         bind_exn (bind_exn (py_getitem latest (ustr ''2. high'')) (float_of env)) (\<lambda>v_high.
         bind_exn (bind_exn (py_getitem latest (ustr ''3. low'')) (float_of env)) (\<lambda>v_low.
         bind_exn (bind_exn (py_getitem latest (ustr ''4. close'')) (float_of env)) (\<lambda>v_close.
         bind_exn (bind_exn (py_getitem latest (ustr ''6. volume'')) (int_of env)) (\<lambda>v_volume.
         Inr (JObj
           [(ustr ''symbol'', JStr symbol),
            (ustr ''date'', JStr latest_date),
            (ustr ''open'', JFloat v_open),
            (ustr ''high'', JFloat v_high),
            (ustr ''low'', JFloat v_low),
            (ustr ''close'', JFloat v_close),
            (ustr ''volume'', JInt v_volume)])))))))))"

text \<open>Line 11: \<open>event.get('symbol', 'TSLA').upper()\<close>; only a string has \<open>upper\<close>.\<close>

definition event_symbol :: "quote_env \<Rightarrow> (pystr \<times> json) list \<Rightarrow> exn + pystr" where
  "event_symbol env event =
     (case map_of event (ustr ''symbol'') of
        None \<Rightarrow> Inr (upper env (ustr ''TSLA''))
      | Some (JStr s) \<Rightarrow> Inr (upper env s)
      | Some _ \<Rightarrow> Inl AttributeError)"

text \<open>
  The handler. A result \<open>Inl e\<close> is an exception that leaves the handler; \<open>Inr (r, puts)\<close>
  is the response \<open>r\<close> with the objects written to the bucket, as (bucket, key, body).
\<close>

definition lambda_handler ::
  "quote_env \<Rightarrow> (pystr \<times> json) list \<Rightarrow> exn + (response \<times> (pystr \<times> pystr \<times> json) list)" where
  "lambda_handler env event =
     bind_exn (secret_api_key env) (\<lambda>api_key.
     bind_exn (event_symbol env event) (\<lambda>symbol.
     case urlopen_json env (query_url symbol api_key) of
       Inl e \<Rightarrow> Inr (plain 500 (JObj [(ustr ''error'', JStr (str_exc env e))]), [])
     | Inr data \<Rightarrow>
         bind_exn (py_in (ustr ''Error Message'') data) (\<lambda>has_error.
         if has_error then
           Inr (plain 400 (JObj [(ustr ''error'', JStr (ustr ''Invalid symbol: '' @ symbol))]), [])
         else
         bind_exn (py_in (ustr ''Note'') data) (\<lambda>has_note.
         bind_exn (if has_note then Inr True else py_in (ustr ''Information'') data) (\<lambda>limited.
         if limited then
           Inr (plain 429 (JObj [(ustr ''error'', JStr rate_limit_text)]), [])
         else
         bind_exn (py_in (ustr ''Time Series (Daily)'') data) (\<lambda>has_series.
         if \<not> has_series then
           Inr (plain 500
                  (JObj [(ustr ''error'', JStr (ustr ''Unexpected response'')), (ustr ''raw'', data)]),
                [])
         else
         bind_exn (daily_bar env symbol data) (\<lambda>result.
         case put_object env (ustr ''stock-agent-sriram'') (symbol @ ustr ''.json'') data of
           Some e \<Rightarrow> Inl e
         | None \<Rightarrow>
             Inr (plain 200 result,
                  [(ustr ''stock-agent-sriram'', symbol @ ustr ''.json'', data)]))))))))"

text \<open>
  An environment for running the handler on a given payload: the secret is found, the
  HTTP GET returns the payload, \<open>float\<close> and \<open>int\<close> accept numbers only, the put succeeds.
\<close>

definition env_with_payload :: "json \<Rightarrow> quote_env" where
  "env_with_payload data =
     \<lparr>secret_api_key = Inr (ustr ''demo''),
      upper = (\<lambda>s. s),
      urlopen_json = (\<lambda>url. Inr data),
      str_exc = (\<lambda>e. []),
      float_of = (\<lambda>v. case v of JFloat r \<Rightarrow> Inr r | JInt n \<Rightarrow> Inr (of_int n) | _ \<Rightarrow> Inl ValueError),
      int_of = (\<lambda>v. case v of JInt n \<Rightarrow> Inr n | _ \<Rightarrow> Inl ValueError),
      put_object = (\<lambda>bucket key b. None)\<rparr>"

text \<open>A payload with two trading days, the later one listed first.\<close>

definition sample_bar :: "real \<Rightarrow> json" where
  "sample_bar p =
     JObj [(ustr ''1. open'', JFloat p), (ustr ''2. high'', JFloat (p + 2)),
           (ustr ''3. low'', JFloat (p - 1)), (ustr ''4. close'', JFloat (p + 1)),
           (ustr ''5. adjusted close'', JFloat (p + 1)), (ustr ''6. volume'', JInt 500)]"

definition two_day_payload :: json where
  "two_day_payload =
     JObj [(ustr ''Meta Data'', JObj []),
           (ustr ''Time Series (Daily)'',
            JObj [(ustr ''2024-01-02'', sample_bar 20), (ustr ''2024-01-01'', sample_bar 10)])]"

section \<open>The chat proxy (lambda\_proxy\_function.py)\<close>

subsection \<open>The conversation store\<close>

text \<open>
  A stored message and a conversation record. Every attribute but the key may be
  absent, as the handlers expect (they read them with \<open>get\<close> and a default); the types of
  the attributes are the data model's, but for the key, which is whatever value the
  request gave as \<open>sessionId\<close>. A message's timestamp is a number of milliseconds
  or, for the load handler's second branch, something else given by its \<open>str\<close>.
\<close>

datatype tstamp = TsNum int | TsOther pystr

record message =
  role :: "pystr option"
  content :: "pystr option"
  timestamp :: "tstamp option"

record conversation =
  sessionId :: json
  title :: "pystr option"
  messages :: "message list option"
  lastMessage :: "pystr option"
  messageCount :: "int option"
  createdAt :: "int option"
  updatedAt :: "int option"

text \<open>
  The table is the list of its items, in the order a scan returns them; \<open>sessionId\<close> is
  the primary key. \<open>put_item\<close> replaces the whole item, \<open>update_item\<close> changes attributes of
  the item with the key and creates that item when there is none. A scan returns every
  item.
\<close>

type_synonym table = "conversation list"

text \<open>
  A number as a handler holds it: an \<open>int\<close> of the program (a default, a length, a clock
  reading), or the \<open>decimal.Decimal\<close> that the table resource of line 9 returns for every
  Number attribute it reads. The two compare by value; \<open>isinstance(x, (int, float))\<close> is
  false of a \<open>Decimal\<close>, and \<open>json.dumps\<close> refuses one with a \<open>TypeError\<close>.
\<close>

datatype number = PyInt int | Decimal int

fun num_val :: "number \<Rightarrow> int" where
  "num_val (PyInt n) = n"
| "num_val (Decimal n) = n"

fun dumps_number :: "number \<Rightarrow> exn + json" where
  "dumps_number (PyInt n) = Inr (JInt n)"
| "dumps_number (Decimal n) = Inl TypeError"

text \<open>A value read back from the table holds a \<open>Decimal\<close> where it holds a number.\<close>

fun has_number :: "json \<Rightarrow> bool" where
  "has_number (JInt n) = True"
| "has_number (JFloat r) = True"
| "has_number (JArr xs) = (\<exists>x \<in> set xs. has_number x)"
| "has_number (JObj kvs) = (\<exists>kv \<in> set kvs. has_number (snd kv))"
| "has_number v = False"

definition get_item :: "table \<Rightarrow> json \<Rightarrow> conversation option" where
  "get_item tbl sid = find (\<lambda>r. sessionId r = sid) tbl"

definition put_item :: "table \<Rightarrow> conversation \<Rightarrow> table" where
  "put_item tbl item =
     (case get_item tbl (sessionId item) of
        None \<Rightarrow> tbl @ [item]
      | Some _ \<Rightarrow> map (\<lambda>r. if sessionId r = sessionId item then item else r) tbl)"

definition key_only :: "json \<Rightarrow> conversation" where
  "key_only sid =
     \<lparr>sessionId = sid, title = None, messages = None, lastMessage = None,
      messageCount = None, createdAt = None, updatedAt = None\<rparr>"

definition update_item :: "table \<Rightarrow> json \<Rightarrow> (conversation \<Rightarrow> conversation) \<Rightarrow> table" where
  "update_item tbl sid f =
     (case get_item tbl sid of
        None \<Rightarrow> tbl @ [f (key_only sid)]
      | Some _ \<Rightarrow> map (\<lambda>r. if sessionId r = sid then f r else r) tbl)"

definition delete_item :: "table \<Rightarrow> json \<Rightarrow> table" where
  "delete_item tbl sid = filter (\<lambda>r. sessionId r \<noteq> sid) tbl"

subsection \<open>The services\<close>

text \<open>
  An event of the agent's response stream: with a \<open>chunk\<close> key or without; a chunk with
  a \<open>bytes\<close> key or without; the bytes by what \<open>decode('utf-8')\<close> makes of them. Each
  event of a stream comes with the value \<open>time.time()\<close> has when the loop receives it
  (line 83), in seconds; \<open>started\<close> is the value read at line 80. The iteration ends
  normally or by an exception.
\<close>

datatype payload = Utf8 pystr | Undecodable

datatype event = ChunkEvent "payload option" | OtherEvent

datatype stream_end = Finished | Raises exn

record agent_stream =
  started :: real
  events :: "(real \<times> event) list"
  ending :: stream_end

datatype db_op = GetItem | PutItem | UpdateItem | DeleteItem | Scan

text \<open>
  What one invocation sees of the world: the request id, the clock in milliseconds as
  \<open>save_message_to_db\<close> reads it, the store's failures (the exception a call of that kind
  raises, if it does; a handler makes at most one call of a kind, and a key the store
  refuses is such a failure), the agent, \<open>str\<close> of an exception, \<open>str\<close> of a \<open>Decimal\<close> by its
  value, and the two uses of \<open>datetime\<close> in the load handler
  (\<open>fromtimestamp(ts / 1000).isoformat()\<close>, which can raise, and \<open>now().isoformat()\<close>).
\<close>

record chat_env =
  aws_request_id :: pystr
  time_ms :: int
  db_fault :: "db_op \<Rightarrow> exn option"
  invoke_agent :: "json \<Rightarrow> pystr \<Rightarrow> exn + agent_stream"
  str_exn :: "exn \<Rightarrow> pystr"
  str_decimal :: "int \<Rightarrow> pystr"
  iso_of_ms :: "int \<Rightarrow> pystr option"
  now_iso :: pystr

definition db_call :: "chat_env \<Rightarrow> db_op \<Rightarrow> 'a \<Rightarrow> exn + 'a" where
  "db_call env op result = (case db_fault env op of Some e \<Rightarrow> Inl e | None \<Rightarrow> Inr result)"

subsection \<open>Responses\<close>

definition cors :: "(pystr \<times> pystr) list" where
  "cors =
     [(ustr ''Content-Type'', ustr ''application/json''),
      (ustr ''Access-Control-Allow-Origin'', ustr ''*'')]"

definition reply :: "int \<Rightarrow> json \<Rightarrow> response" where
  "reply code b = \<lparr>statusCode = code, isBase64Encoded = None, headers = Some cors, body = b\<rparr>"

definition error_reply :: "int \<Rightarrow> pystr \<Rightarrow> response" where
  "error_reply code msg = reply code (JObj [(ustr ''error'', JStr msg)])"

subsection \<open>save\_message\_to\_db\<close>

definition new_title :: "pystr \<Rightarrow> pystr" where
  "new_title user_message = (if length user_message > 0 then take 50 user_message else ustr ''New Chat'')"

definition exchange :: "int \<Rightarrow> pystr \<Rightarrow> pystr \<Rightarrow> message list" where
  "exchange t user_message bot_response =
     [\<lparr>role = Some (ustr ''user''), content = Some user_message, timestamp = Some (TsNum t)\<rparr>,
      \<lparr>role = Some (ustr ''assistant''), content = Some bot_response,
       timestamp = Some (TsNum (t + 1))\<rparr>]"

text \<open>
  The result is the table after the call, or the exception the function raises again
  at line 210; the table is then as it was, since the one write is what failed.
\<close>

definition save_message_to_db ::
  "chat_env \<Rightarrow> table \<Rightarrow> json \<Rightarrow> pystr \<Rightarrow> pystr \<Rightarrow> exn + table" where
  "save_message_to_db env tbl session_id user_message bot_response =
     (let t = time_ms env in
      bind_exn (db_call env GetItem (get_item tbl session_id)) (\<lambda>found.
      case found of
        Some item \<Rightarrow>
          (let msgs = (case messages item of None \<Rightarrow> [] | Some ms \<Rightarrow> ms)
                        @ exchange t user_message bot_response;
               ttl = (case title item of
                        None \<Rightarrow> new_title user_message
                      | Some s \<Rightarrow>
                          if s = [] \<or> s = ustr ''New Chat'' then new_title user_message else s)
           in db_call env UpdateItem
                (update_item tbl session_id (\<lambda>r. r
                   \<lparr>messages := Some msgs,
                    lastMessage := Some (take 100 bot_response),
                    messageCount := Some (int (length msgs)),
                    updatedAt := Some t,
                    title := Some ttl\<rparr>)))
      | None \<Rightarrow>
          db_call env PutItem
            (put_item tbl
               \<lparr>sessionId = session_id,
                title = Some (new_title user_message),
                messages = Some (exchange t user_message bot_response),
                lastMessage = Some (take 100 bot_response),
                messageCount = Some 2,
                createdAt = Some t,
                updatedAt = Some t\<rparr>)))"

subsection \<open>handle\_send\_message\<close>

text \<open>
  Lines 79 to 93: the loop over the stream, with \<open>completion\<close> as accumulator. The loop
  is left at the first event received more than 30 seconds after \<open>started\<close>.
\<close>

fun accumulate :: "real \<Rightarrow> (real \<times> event) list \<Rightarrow> stream_end \<Rightarrow> pystr \<Rightarrow> exn + pystr" where
  "accumulate start [] fin completion =
     (case fin of Finished \<Rightarrow> Inr completion | Raises e \<Rightarrow> Inl e)"
| "accumulate start ((now, ev) # rest) fin completion =
     (if now - start > 30 then Inr completion
      else case ev of
             ChunkEvent (Some (Utf8 text)) \<Rightarrow> accumulate start rest fin (completion @ text)
           | _ \<Rightarrow> accumulate start rest fin completion)"

definition no_response_text :: pystr where
  "no_response_text = ustr ''Agent returned no response. Try rephrasing your query.''"

definition send_headers :: "(pystr \<times> pystr) list" where
  "send_headers =
     [(ustr ''Content-Type'', ustr ''application/json''),
      (ustr ''Access-Control-Allow-Origin'', ustr ''*''),
      (ustr ''Access-Control-Allow-Headers'', ustr ''Content-Type,x-api-key''),
      (ustr ''Access-Control-Allow-Methods'', ustr ''POST,OPTIONS'')]"

text \<open>\<open>body.get(key, '').strip()\<close>: only a string has \<open>strip\<close>.\<close>

definition get_stripped :: "(pystr \<times> json) list \<Rightarrow> pystr \<Rightarrow> exn + pystr" where
  "get_stripped body_dict k =
     (case map_of body_dict k of
        None \<Rightarrow> Inr (strip [])
      | Some (JStr s) \<Rightarrow> Inr (strip s)
      | Some _ \<Rightarrow> Inl AttributeError)"

text \<open>Line 58: the session of the request, or one named after the invocation.\<close>

definition session_of :: "chat_env \<Rightarrow> (pystr \<times> json) list \<Rightarrow> json" where
  "session_of env body_dict =
     (case map_of body_dict (ustr ''sessionId'') of
        None \<Rightarrow> JStr (ustr ''session-'' @ aws_request_id env)
      | Some v \<Rightarrow> v)"

text \<open>
  The handler returns a response or lets an exception through (\<open>Inl\<close>: only a
  \<open>ClientError\<close> is caught at line 123), and leaves the table as the save left it.
\<close>

definition bedrock_error :: "pystr \<Rightarrow> response" where
  "bedrock_error error_msg =
     reply 500 (JObj [(ustr ''error'', JStr (ustr ''Bedrock service error'')),
                      (ustr ''details'', JStr error_msg)])"

definition handle_send_message ::
  "chat_env \<Rightarrow> table \<Rightarrow> (pystr \<times> json) list \<Rightarrow> (exn + response) \<times> table" where
  "handle_send_message env tbl body_dict =
     (case get_stripped body_dict (ustr ''message'') of
        Inl e \<Rightarrow> (Inl e, tbl)
      | Inr user_message \<Rightarrow>
          (let session_id = session_of env body_dict
           in if user_message = [] then
                (Inr ((error_reply 400 (ustr ''Empty message''))\<lparr>isBase64Encoded := Some False\<rparr>), tbl)
              else
                (case bind_exn (invoke_agent env session_id user_message)
                        (\<lambda>s. accumulate (started s) (events s) (ending s) []) of
                   Inl (ClientError error_code error_msg) \<Rightarrow> (Inr (bedrock_error error_msg), tbl)
                 | Inl e \<Rightarrow> (Inl e, tbl)
                 | Inr streamed \<Rightarrow>
                     (let completion = (if strip streamed = [] then no_response_text else streamed);
                          tbl' = (case save_message_to_db env tbl session_id user_message
                                         (strip completion) of
                                    Inl save_error \<Rightarrow> tbl
                                  | Inr saved \<Rightarrow> saved)
                      in (Inr \<lparr>statusCode = 200, isBase64Encoded = Some False,
                               headers = Some send_headers,
                               body = JObj [(ustr ''response'', JStr (strip completion)),
                                            (ustr ''sessionId'', session_id)]\<rparr>,
                          tbl')))))"

subsection \<open>handle\_load\_conversation\<close>

text \<open>
  Lines 246 to 270. The timestamp of a message is the default 0, an \<open>int\<close>, when the
  message has none: that is the branch of line 250, with the \<open>except\<close> of line 264 when
  \<open>fromtimestamp\<close> raises. A number read from the table is a \<open>Decimal\<close>, for which
  \<open>isinstance\<close> is false, so it goes to the branch of line 257 as any other value does,
  and the timestamp returned is its \<open>str\<close>.
\<close>

definition format_message :: "chat_env \<Rightarrow> message \<Rightarrow> json" where
  "format_message env msg =
     JObj
       [(ustr ''role'', JStr (case role msg of None \<Rightarrow> ustr ''user'' | Some r \<Rightarrow> r)),
        (ustr ''content'', JStr (case content msg of None \<Rightarrow> [] | Some c \<Rightarrow> c)),
        (ustr ''timestamp'',
           JStr (case timestamp msg of
                   None \<Rightarrow> (case iso_of_ms env 0 of Some s \<Rightarrow> s | None \<Rightarrow> now_iso env)
                 | Some (TsNum n) \<Rightarrow> str_decimal env n
                 | Some (TsOther s) \<Rightarrow> s))]"

definition handle_load_conversation ::
  "chat_env \<Rightarrow> table \<Rightarrow> (pystr \<times> json) list \<Rightarrow> response" where
  "handle_load_conversation env tbl body_dict =
     (case map_of body_dict (ustr ''sessionId'') of
        None \<Rightarrow> error_reply 400 (ustr ''sessionId required'')
      | Some session_id \<Rightarrow>
          if \<not> truthy session_id then error_reply 400 (ustr ''sessionId required'')
          else
            (case db_call env GetItem (get_item tbl session_id) of
               Inl e \<Rightarrow> error_reply 500 (str_exn env e)
             | Inr None \<Rightarrow> reply 200 (JObj [(ustr ''messages'', JArr [])])
             | Inr (Some item) \<Rightarrow>
                 reply 200
                   (JObj [(ustr ''messages'',
                           JArr (map (format_message env)
                                   (case messages item of None \<Rightarrow> [] | Some ms \<Rightarrow> ms)))])))"

subsection \<open>handle\_list\_conversations\<close>

text \<open>
  The dict built for each item at lines 299 to 305. The timestamp and the message count
  are the \<open>Decimal\<close> read from the item, or the \<open>int\<close> 0 of the default.
\<close>

record listing =
  l_sessionId :: json
  l_title :: pystr
  l_lastMessage :: pystr
  l_timestamp :: number
  l_messageCount :: number

definition project :: "conversation \<Rightarrow> listing" where
  "project item =
     \<lparr>l_sessionId = sessionId item,
      l_title = (case title item of None \<Rightarrow> ustr ''New Chat'' | Some s \<Rightarrow> s),
      l_lastMessage = (case lastMessage item of None \<Rightarrow> [] | Some s \<Rightarrow> s),
      l_timestamp =
        (case updatedAt item of
           Some u \<Rightarrow> Decimal u
         | None \<Rightarrow> (case createdAt item of Some c \<Rightarrow> Decimal c | None \<Rightarrow> PyInt 0)),
      l_messageCount = (case messageCount item of None \<Rightarrow> PyInt 0 | Some n \<Rightarrow> Decimal n)\<rparr>"

text \<open>
  \<open>sort(key=..., reverse=True)\<close> is stable: items with the same key keep their order. So
  is \<open>sort_key\<close>, here on the negated value of the key.
\<close>

definition sorted_listings :: "table \<Rightarrow> listing list" where
  "sorted_listings tbl = sort_key (\<lambda>x. - num_val (l_timestamp x)) (map project tbl)"

text \<open>
  What \<open>json.dumps\<close> at line 313 makes of one dict of the list, and of the list: the
  value to serialise, or the \<open>TypeError\<close> for a \<open>Decimal\<close> in it.
\<close>

definition listing_json :: "listing \<Rightarrow> exn + json" where
  "listing_json x =
     (if has_number (l_sessionId x) then Inl TypeError
      else
        bind_exn (dumps_number (l_timestamp x)) (\<lambda>ts.
        bind_exn (dumps_number (l_messageCount x)) (\<lambda>n.
        Inr (JObj
          [(ustr ''sessionId'', l_sessionId x),
           (ustr ''title'', JStr (l_title x)),
           (ustr ''lastMessage'', JStr (l_lastMessage x)),
           (ustr ''timestamp'', ts),
           (ustr ''messageCount'', n)]))))"

fun dumps_all :: "listing list \<Rightarrow> exn + json list" where
  "dumps_all [] = Inr []"
| "dumps_all (x # xs) =
     bind_exn (listing_json x) (\<lambda>j. bind_exn (dumps_all xs) (\<lambda>js. Inr (j # js)))"

text \<open>
  The handler: the scan, the projections, the sort, and the response, whose
  \<open>json.dumps\<close> is inside the \<open>try\<close> of line 291, so that its \<open>TypeError\<close> is answered 500
  at line 315.
\<close>

definition handle_list_conversations :: "chat_env \<Rightarrow> table \<Rightarrow> response" where
  "handle_list_conversations env tbl =
     (case db_fault env Scan of
        Some e \<Rightarrow> error_reply 500 (str_exn env e)
      | None \<Rightarrow>
          (case dumps_all (sorted_listings tbl) of
             Inl e \<Rightarrow> error_reply 500 (str_exn env e)
           | Inr conversations \<Rightarrow>
               reply 200 (JObj [(ustr ''conversations'', JArr conversations)])))"

subsection \<open>handle\_delete\_conversation and handle\_rename\_conversation\<close>

definition success_reply :: response where
  "success_reply = reply 200 (JObj [(ustr ''success'', JBool True)])"

definition handle_delete_conversation ::
  "chat_env \<Rightarrow> table \<Rightarrow> (pystr \<times> json) list \<Rightarrow> response \<times> table" where
  "handle_delete_conversation env tbl body_dict =
     (case map_of body_dict (ustr ''sessionId'') of
        None \<Rightarrow> (error_reply 400 (ustr ''sessionId required''), tbl)
      | Some session_id \<Rightarrow>
          if \<not> truthy session_id then (error_reply 400 (ustr ''sessionId required''), tbl)
          else
            (case db_call env DeleteItem (delete_item tbl session_id) of
               Inl e \<Rightarrow> (error_reply 500 (str_exn env e), tbl)
             | Inr tbl' \<Rightarrow> (success_reply, tbl')))"

definition handle_rename_conversation ::
  "chat_env \<Rightarrow> table \<Rightarrow> (pystr \<times> json) list \<Rightarrow> response \<times> table" where
  "handle_rename_conversation env tbl body_dict =
     (let session_id = map_of body_dict (ustr ''sessionId'') in
      case get_stripped body_dict (ustr ''title'') of
        Inl e \<Rightarrow> (error_reply 500 (str_exn env e), tbl)
      | Inr title' \<Rightarrow>
          (case session_id of
             None \<Rightarrow> (error_reply 400 (ustr ''sessionId required''), tbl)
           | Some sid \<Rightarrow>
               if \<not> truthy sid then (error_reply 400 (ustr ''sessionId required''), tbl)
               else if title' = [] then (error_reply 400 (ustr ''title required''), tbl)
               else
                 (case db_call env UpdateItem
                         (update_item tbl sid (\<lambda>r. r\<lparr>title := Some title'\<rparr>)) of
                    Inl e \<Rightarrow> (error_reply 500 (str_exn env e), tbl)
                  | Inr tbl' \<Rightarrow> (success_reply, tbl'))))"

subsection \<open>The time budget as the specification words it\<close>

text \<open>
  The specification has the 30 seconds run from the arrival of the first chunk. This is
  that reading, written down to be compared with \<open>accumulate\<close>: the loop with the time
  of the first event that has a \<open>chunk\<close> key as start.
\<close>

fun first_chunk_at :: "(real \<times> event) list \<Rightarrow> real option" where
  "first_chunk_at [] = None"
| "first_chunk_at ((now, ChunkEvent p) # rest) = Some now"
| "first_chunk_at ((now, OtherEvent) # rest) = first_chunk_at rest"

definition accumulate_from_first_chunk :: "(real \<times> event) list \<Rightarrow> stream_end \<Rightarrow> exn + pystr" where
  "accumulate_from_first_chunk evs fin =
     (case first_chunk_at evs of
        None \<Rightarrow> (case fin of Finished \<Rightarrow> Inr [] | Raises e \<Rightarrow> Inl e)
      | Some t0 \<Rightarrow> accumulate t0 evs fin [])"

subsection \<open>An environment to run the handlers in\<close>

text \<open>
  The store answers every call, the agent answers every invocation with the given
  stream, the clock reads 1000 ms.
\<close>

definition calm_env :: "agent_stream \<Rightarrow> chat_env" where
  "calm_env s =
     \<lparr>aws_request_id = ustr ''req-1'',
      time_ms = 1000,
      db_fault = (\<lambda>op. None),
      invoke_agent = (\<lambda>session_id text. Inr s),
      str_exn = (\<lambda>e. []),
      str_decimal = (\<lambda>n. []),
      iso_of_ms = (\<lambda>n. None),
      now_iso = []\<rparr>"

definition one_chunk :: "real \<Rightarrow> pystr \<Rightarrow> agent_stream" where
  "one_chunk arrival text =
     \<lparr>started = 0, events = [(arrival, ChunkEvent (Some (Utf8 text)))], ending = Finished\<rparr>"

definition idle_stream :: agent_stream where
  "idle_stream = \<lparr>started = 0, events = [], ending = Finished\<rparr>"

text \<open>
  The table after a first exchange in session \<open>s1\<close> at 1000 ms, and after a second one at
  2000 ms.
\<close>

definition saved_once :: table where
  "saved_once =
     [\<lparr>sessionId = JStr (ustr ''s1''),
       title = Some (ustr ''hi''),
       messages = Some (exchange 1000 (ustr ''hi'') (ustr ''hello'')),
       lastMessage = Some (ustr ''hello''),
       messageCount = Some 2,
       createdAt = Some 1000,
       updatedAt = Some 1000\<rparr>]"

definition saved_twice :: table where
  "saved_twice =
     [\<lparr>sessionId = JStr (ustr ''s1''),
       title = Some (ustr ''hi''),
       messages = Some (exchange 1000 (ustr ''hi'') (ustr ''hello'')
                        @ exchange 2000 (ustr ''more'') (ustr ''sure'')),
       lastMessage = Some (ustr ''sure''),
       messageCount = Some 4,
       createdAt = Some 1000,
       updatedAt = Some 2000\<rparr>]"

text \<open>
  A table whose items have no number at all, and one whose items have \<open>updatedAt\<close> and
  \<open>createdAt\<close>, \<open>createdAt\<close> alone, and neither.
\<close>

definition titles_only :: table where
  "titles_only =
     [(key_only (JStr (ustr ''a'')))\<lparr>title := Some (ustr ''first''), lastMessage := Some (ustr ''bye'')\<rparr>,
      key_only (JStr (ustr ''b''))]"

definition mixed_table :: table where
  "mixed_table =
     [(key_only (JStr (ustr ''a'')))\<lparr>createdAt := Some 9, updatedAt := Some 5\<rparr>,
      key_only (JStr (ustr ''b'')),
      (key_only (JStr (ustr ''c'')))\<lparr>createdAt := Some 7, title := Some (ustr ''third'')\<rparr>]"

subsection \<open>Runs of the persistence step\<close>

text \<open>
  A run of calls of \<open>save_message_to_db\<close> for one session, one call after the other,
  each in the environment of its own invocation and with its own pair of messages. The
  run stops at the first call that raises.
\<close>

fun save_all :: "table \<Rightarrow> json \<Rightarrow> (chat_env \<times> pystr \<times> pystr) list \<Rightarrow> exn + table" where
  "save_all tbl session_id [] = Inr tbl"
| "save_all tbl session_id ((env, user_message, bot_response) # rest) =
     bind_exn (save_message_to_db env tbl session_id user_message bot_response)
       (\<lambda>tbl'. save_all tbl' session_id rest)"

subsection \<open>The part of a stream that is read\<close>

text \<open>
  The stream cut at the first event received more than 30 seconds after \<open>started\<close>, as a
  stream that ends there.
\<close>

definition in_budget :: "real \<Rightarrow> real \<times> event \<Rightarrow> bool" where
  "in_budget start ev = (fst ev - start \<le> 30)"

definition cut_stream :: "agent_stream \<Rightarrow> agent_stream" where
  "cut_stream s =
     s\<lparr>events := takeWhile (in_budget (started s)) (events s),
       ending := (if list_all (in_budget (started s)) (events s) then ending s else Finished)\<rparr>"

text \<open>The text an event adds to the completion.\<close>

definition chunk_text :: "real \<times> event \<Rightarrow> pystr" where
  "chunk_text ev = (case snd ev of ChunkEvent (Some (Utf8 text)) \<Rightarrow> text | _ \<Rightarrow> [])"

section \<open>Basic facts\<close>

lemma ustr_eq_iff [simp]: "ustr a = ustr b \<longleftrightarrow> a = b"
  unfolding ustr_def by (simp add: inj_map_eq_map inj_on_def)

lemma bind_exn_Inr [simp]: "bind_exn (Inr x) f = f x"
  by (simp add: bind_exn_def)

lemma bind_exn_Inl [simp]: "bind_exn (Inl e) f = Inl e"
  by (simp add: bind_exn_def)

lemma bind_exn_eq_Inr: "bind_exn m f = Inr y \<longleftrightarrow> (\<exists>x. m = Inr x \<and> f x = Inr y)"
  by (cases m) simp_all

lemma bind_exn_InrE:
  assumes "bind_exn m f = Inr y"
  obtains x where "m = Inr x" and "f x = Inr y"
  using assms by (cases m) simp_all

lemma py_getitem_Inr: "py_getitem v k = Inr x \<longleftrightarrow> (\<exists>kvs. v = JObj kvs \<and> map_of kvs k = Some x)"
  by (cases v) (auto split: option.splits)

lemma py_keys_Inr: "py_keys v = Inr ks \<longleftrightarrow> (\<exists>kvs. v = JObj kvs \<and> ks = map fst kvs)"
  by (cases v) auto

lemma env_with_payload_simps [simp]:
  "secret_api_key (env_with_payload d) = Inr (ustr ''demo'')"
  "upper (env_with_payload d) = (\<lambda>s. s)"
  "urlopen_json (env_with_payload d) = (\<lambda>url. Inr d)"
  "put_object (env_with_payload d) = (\<lambda>bucket key b. None)"
  by (simp_all add: env_with_payload_def)

section \<open>The quote fetcher: classification of the payload\<close>

text \<open>
  C1, as amended. When the decoded payload is a JSON object, the handler classifies it in
  a fixed order of precedence: with an \<open>Error Message\<close> key the response is 400, whatever
  other keys there are; otherwise with a \<open>Note\<close> or an \<open>Information\<close> key it is 429, also
  when \<open>Time Series (Daily)\<close> is there; otherwise without a \<open>Time Series (Daily)\<close> key it is
  500 with the payload under \<open>raw\<close>; otherwise the handler goes on to the success path
  (the daily bar, the put, and 200).
\<close>

theorem classify_object_payload:
  assumes "secret_api_key env = Inr api_key"
    and "event_symbol env event = Inr symbol"
    and "urlopen_json env (query_url symbol api_key) = Inr (JObj kvs)"
  shows "lambda_handler env event =
     (if ustr ''Error Message'' \<in> fst ` set kvs then
        Inr (plain 400 (JObj [(ustr ''error'', JStr (ustr ''Invalid symbol: '' @ symbol))]), [])
      else if ustr ''Note'' \<in> fst ` set kvs \<or> ustr ''Information'' \<in> fst ` set kvs then
        Inr (plain 429 (JObj [(ustr ''error'', JStr rate_limit_text)]), [])
      else if ustr ''Time Series (Daily)'' \<notin> fst ` set kvs then
        Inr (plain 500
               (JObj [(ustr ''error'', JStr (ustr ''Unexpected response'')),
                      (ustr ''raw'', JObj kvs)]), [])
      else
        bind_exn (daily_bar env symbol (JObj kvs)) (\<lambda>result.
          case put_object env (ustr ''stock-agent-sriram'') (symbol @ ustr ''.json'') (JObj kvs) of
            Some e \<Rightarrow> Inl e
          | None \<Rightarrow>
              Inr (plain 200 result,
                   [(ustr ''stock-agent-sriram'', symbol @ ustr ''.json'', JObj kvs)])))"
  using assms by (simp add: lambda_handler_def)

text \<open>
  A payload with both an \<open>Information\<close> key and a time series: the response is 429.
\<close>

theorem classify_object_payload_witness:
  "lambda_handler
     (env_with_payload
        (JObj [(ustr ''Time Series (Daily)'', JObj []), (ustr ''Information'', JStr (ustr ''limit''))]))
     [(ustr ''symbol'', JStr (ustr ''IBM''))]
   = Inr (plain 429 (JObj [(ustr ''error'', JStr rate_limit_text)]), [])"
proof -
  let ?data = "JObj [(ustr ''Time Series (Daily)'', JObj []),
                     (ustr ''Information'', JStr (ustr ''limit''))]"
  let ?event = "[(ustr ''symbol'', JStr (ustr ''IBM''))]"
  have h1: "secret_api_key (env_with_payload ?data) = Inr (ustr ''demo'')" by simp
  have h2: "event_symbol (env_with_payload ?data) ?event = Inr (ustr ''IBM'')"
    by (simp add: event_symbol_def)
  have h3: "urlopen_json (env_with_payload ?data) (query_url (ustr ''IBM'') (ustr ''demo''))
              = Inr ?data"
    by simp
  show ?thesis
    unfolding classify_object_payload [OF h1 h2 h3] by simp
qed

text \<open>
  C1 as stated, for every decoded payload, does not hold: \<open>null\<close> is a JSON payload with
  no key at all, and for it the first test (line 22) raises a \<open>TypeError\<close> that nothing
  catches, so no response is returned, where the claim has 500.
\<close>

theorem classify_null_payload_raises:
  "lambda_handler (env_with_payload JNull) [] = Inl TypeError"
  by (simp add: lambda_handler_def event_symbol_def)

section \<open>The quote fetcher: the date that is selected\<close>

lemma sort_head_least:
  fixes ks :: "'a::linorder list"
  assumes "sort ks = d # rest"
  shows "d \<in> set ks \<and> (\<forall>k\<in>set ks. d \<le> k)"
proof -
  have s: "sorted (d # rest)" using assms sorted_sort [of ks] by simp
  have e: "set ks = set (d # rest)" using assms set_sort [of "\<lambda>x. x" ks] by simp
  show ?thesis using s e by auto
qed

lemma daily_bar_Inr:
  assumes "daily_bar env symbol data = Inr result"
  shows "\<exists>kvs series d bar v_open v_high v_low v_close v_volume.
     data = JObj kvs \<and> map_of kvs (ustr ''Time Series (Daily)'') = Some (JObj series) \<and>
     d \<in> fst ` set series \<and> (\<forall>k \<in> fst ` set series. d \<le> k) \<and>
     map_of series d = Some bar \<and>
     bind_exn (py_getitem bar (ustr ''1. open'')) (float_of env) = Inr v_open \<and>
     bind_exn (py_getitem bar (ustr ''2. high'')) (float_of env) = Inr v_high \<and>
     bind_exn (py_getitem bar (ustr ''3. low'')) (float_of env) = Inr v_low \<and>
     bind_exn (py_getitem bar (ustr ''4. close'')) (float_of env) = Inr v_close \<and>
     bind_exn (py_getitem bar (ustr ''6. volume'')) (int_of env) = Inr v_volume \<and>
     result = JObj
       [(ustr ''symbol'', JStr symbol), (ustr ''date'', JStr d),
        (ustr ''open'', JFloat v_open), (ustr ''high'', JFloat v_high),
        (ustr ''low'', JFloat v_low), (ustr ''close'', JFloat v_close),
        (ustr ''volume'', JInt v_volume)]"
proof -
  from assms obtain time_series keys where
    ts: "py_getitem data (ustr ''Time Series (Daily)'') = Inr time_series"
    and ks: "py_keys time_series = Inr keys"
    and rest: "(case sort keys of
       [] \<Rightarrow> Inl IndexError
     | latest_date # _ \<Rightarrow>
         bind_exn (py_getitem time_series latest_date) (\<lambda>latest.
         bind_exn (bind_exn (py_getitem latest (ustr ''1. open'')) (float_of env)) (\<lambda>v_open.
         bind_exn (bind_exn (py_getitem latest (ustr ''2. high'')) (float_of env)) (\<lambda>v_high.
         bind_exn (bind_exn (py_getitem latest (ustr ''3. low'')) (float_of env)) (\<lambda>v_low.
         bind_exn (bind_exn (py_getitem latest (ustr ''4. close'')) (float_of env)) (\<lambda>v_close.
         bind_exn (bind_exn (py_getitem latest (ustr ''6. volume'')) (int_of env)) (\<lambda>v_volume.
         Inr (JObj
           [(ustr ''symbol'', JStr symbol),
            (ustr ''date'', JStr latest_date),
            (ustr ''open'', JFloat v_open),
            (ustr ''high'', JFloat v_high),
            (ustr ''low'', JFloat v_low),
            (ustr ''close'', JFloat v_close),
            (ustr ''volume'', JInt v_volume)])))))))) = Inr result"
    unfolding daily_bar_def bind_exn_eq_Inr by blast
  from ts obtain kvs where kvs: "data = JObj kvs"
    "map_of kvs (ustr ''Time Series (Daily)'') = Some time_series"
    unfolding py_getitem_Inr by blast
  from ks obtain series where series: "time_series = JObj series" "keys = map fst series"
    unfolding py_keys_Inr by blast
  from rest obtain d others where d: "sort keys = d # others"
    by (cases "sort keys") simp_all
  from sort_head_least [OF d] series
  have least: "d \<in> fst ` set series" "\<forall>k \<in> fst ` set series. d \<le> k"
    by simp_all
  from rest d obtain bar v_open v_high v_low v_close v_volume where
    bar: "py_getitem time_series d = Inr bar"
    and vs: "bind_exn (py_getitem bar (ustr ''1. open'')) (float_of env) = Inr v_open"
      "bind_exn (py_getitem bar (ustr ''2. high'')) (float_of env) = Inr v_high"
      "bind_exn (py_getitem bar (ustr ''3. low'')) (float_of env) = Inr v_low"
      "bind_exn (py_getitem bar (ustr ''4. close'')) (float_of env) = Inr v_close"
      "bind_exn (py_getitem bar (ustr ''6. volume'')) (int_of env) = Inr v_volume"
    and res: "result = JObj
       [(ustr ''symbol'', JStr symbol), (ustr ''date'', JStr d),
        (ustr ''open'', JFloat v_open), (ustr ''high'', JFloat v_high),
        (ustr ''low'', JFloat v_low), (ustr ''close'', JFloat v_close),
        (ustr ''volume'', JInt v_volume)]"
    by (auto elim!: bind_exn_InrE)
  from bar series have "map_of series d = Some bar"
    by (simp split: option.splits)
  with kvs series least vs res show ?thesis by blast
qed

lemma handler_200_is_daily_bar:
  assumes "secret_api_key env = Inr api_key"
    and "event_symbol env event = Inr symbol"
    and "urlopen_json env (query_url symbol api_key) = Inr data"
    and "lambda_handler env event = Inr (r, puts)"
    and "statusCode r = 200"
  shows "daily_bar env symbol data = Inr (body r)"
  using assms
  by (auto simp: lambda_handler_def plain_def bind_exn_eq_Inr split: if_splits option.splits)

text \<open>
  C2. When the handler answers 200, the payload is an object whose \<open>Time Series (Daily)\<close>
  is a non-empty object, and the daily bar in the body is taken from the entry \<open>bar\<close> under
  the date key \<open>d\<close> that is the smallest of the keys in the order of strings; the body's
  \<open>date\<close> is \<open>d\<close>, and the five numbers are the coercions of that entry's fields.
\<close>

theorem latest_is_smallest_date:
  assumes "secret_api_key env = Inr api_key"
    and "event_symbol env event = Inr symbol"
    and "urlopen_json env (query_url symbol api_key) = Inr data"
    and "lambda_handler env event = Inr (r, puts)"
    and "statusCode r = 200"
  shows "\<exists>kvs series d bar v_open v_high v_low v_close v_volume.
     data = JObj kvs \<and> map_of kvs (ustr ''Time Series (Daily)'') = Some (JObj series) \<and>
     d \<in> fst ` set series \<and> (\<forall>k \<in> fst ` set series. d \<le> k) \<and>
     map_of series d = Some bar \<and>
     bind_exn (py_getitem bar (ustr ''1. open'')) (float_of env) = Inr v_open \<and>
     bind_exn (py_getitem bar (ustr ''2. high'')) (float_of env) = Inr v_high \<and>
     bind_exn (py_getitem bar (ustr ''3. low'')) (float_of env) = Inr v_low \<and>
     bind_exn (py_getitem bar (ustr ''4. close'')) (float_of env) = Inr v_close \<and>
     bind_exn (py_getitem bar (ustr ''6. volume'')) (int_of env) = Inr v_volume \<and>
     body r = JObj
       [(ustr ''symbol'', JStr symbol), (ustr ''date'', JStr d),
        (ustr ''open'', JFloat v_open), (ustr ''high'', JFloat v_high),
        (ustr ''low'', JFloat v_low), (ustr ''close'', JFloat v_close),
        (ustr ''volume'', JInt v_volume)]"
  by (rule daily_bar_Inr [OF handler_200_is_daily_bar [OF assms]])

text \<open>
  The payload with the dates 2024-01-02 and 2024-01-01, in that order: the bar returned
  is the one of 2024-01-01.
\<close>

lemma two_day_run:
  "lambda_handler (env_with_payload two_day_payload) [] =
     Inr (plain 200
            (JObj [(ustr ''symbol'', JStr (ustr ''TSLA'')), (ustr ''date'', JStr (ustr ''2024-01-01'')),
                   (ustr ''open'', JFloat 10), (ustr ''high'', JFloat 12),
                   (ustr ''low'', JFloat 9), (ustr ''close'', JFloat 11),
                   (ustr ''volume'', JInt 500)]),
          [(ustr ''stock-agent-sriram'', ustr ''TSLA.json'', two_day_payload)])"
  by (simp add: lambda_handler_def event_symbol_def daily_bar_def two_day_payload_def
      sample_bar_def env_with_payload_def ustr_def)

theorem latest_is_smallest_date_witness:
  "lambda_handler (env_with_payload two_day_payload) [] =
     Inr (plain 200
            (JObj [(ustr ''symbol'', JStr (ustr ''TSLA'')), (ustr ''date'', JStr (ustr ''2024-01-01'')),
                   (ustr ''open'', JFloat 10), (ustr ''high'', JFloat 12),
                   (ustr ''low'', JFloat 9), (ustr ''close'', JFloat 11),
                   (ustr ''volume'', JInt 500)]),
          [(ustr ''stock-agent-sriram'', ustr ''TSLA.json'', two_day_payload)]) \<and>
   (\<exists>kvs series d bar v_open v_high v_low v_close v_volume.
     two_day_payload = JObj kvs \<and> map_of kvs (ustr ''Time Series (Daily)'') = Some (JObj series) \<and>
     d \<in> fst ` set series \<and> (\<forall>k \<in> fst ` set series. d \<le> k) \<and>
     map_of series d = Some bar \<and>
     bind_exn (py_getitem bar (ustr ''1. open'')) (float_of (env_with_payload two_day_payload))
       = Inr v_open \<and>
     bind_exn (py_getitem bar (ustr ''2. high'')) (float_of (env_with_payload two_day_payload))
       = Inr v_high \<and>
     bind_exn (py_getitem bar (ustr ''3. low'')) (float_of (env_with_payload two_day_payload))
       = Inr v_low \<and>
     bind_exn (py_getitem bar (ustr ''4. close'')) (float_of (env_with_payload two_day_payload))
       = Inr v_close \<and>
     bind_exn (py_getitem bar (ustr ''6. volume'')) (int_of (env_with_payload two_day_payload))
       = Inr v_volume \<and>
     JObj [(ustr ''symbol'', JStr (ustr ''TSLA'')), (ustr ''date'', JStr (ustr ''2024-01-01'')),
           (ustr ''open'', JFloat 10), (ustr ''high'', JFloat 12),
           (ustr ''low'', JFloat 9), (ustr ''close'', JFloat 11),
           (ustr ''volume'', JInt 500)]
     = JObj
       [(ustr ''symbol'', JStr (ustr ''TSLA'')), (ustr ''date'', JStr d),
        (ustr ''open'', JFloat v_open), (ustr ''high'', JFloat v_high),
        (ustr ''low'', JFloat v_low), (ustr ''close'', JFloat v_close),
        (ustr ''volume'', JInt v_volume)])"
proof -
  let ?env = "env_with_payload two_day_payload"
  have h1: "secret_api_key ?env = Inr (ustr ''demo'')" by simp
  have h2: "event_symbol ?env [] = Inr (ustr ''TSLA'')" by (simp add: event_symbol_def)
  have h3: "urlopen_json ?env (query_url (ustr ''TSLA'') (ustr ''demo'')) = Inr two_day_payload"
    by simp
  have h5: "statusCode (plain 200 b) = 200" for b by (simp add: plain_def)
  have b: "body (plain 200 b) = b" for b by (simp add: plain_def)
  show ?thesis
    using latest_is_smallest_date [OF h1 h2 h3 two_day_run h5] two_day_run
    unfolding b by (rule conjI [rotated])
qed

section \<open>The conversation store\<close>

lemma get_item_Nil [simp]: "get_item [] k = None"
  by (simp add: get_item_def)

lemma get_item_Cons [simp]:
  "get_item (r # tbl) k = (if sessionId r = k then Some r else get_item tbl k)"
  by (simp add: get_item_def)

lemma get_item_key: "get_item tbl k = Some r \<Longrightarrow> sessionId r = k"
  by (induction tbl) (auto split: if_splits)

lemma get_item_append:
  "get_item (tbl @ [x]) k =
     (case get_item tbl k of Some r \<Rightarrow> Some r | None \<Rightarrow> if sessionId x = k then Some x else None)"
  by (induction tbl) auto

lemma get_item_map_key:
  assumes "\<And>r. sessionId r = k \<Longrightarrow> sessionId (f r) = k"
  shows "get_item (map (\<lambda>r. if sessionId r = k then f r else r) tbl) k' =
           (if k' = k then map_option f (get_item tbl k) else get_item tbl k')"
  using assms by (induction tbl) auto

lemma get_item_update_item:
  assumes "\<And>r. sessionId r = k \<Longrightarrow> sessionId (f r) = k"
  shows "get_item (update_item tbl k f) k' =
           (if k' = k
            then Some (f (case get_item tbl k of None \<Rightarrow> key_only k | Some r \<Rightarrow> r))
            else get_item tbl k')"
proof (cases "get_item tbl k")
  case None
  have "sessionId (f (key_only k)) = k"
    by (rule assms) (simp add: key_only_def)
  with None show ?thesis
    by (auto simp: update_item_def get_item_append split: option.splits)
next
  case (Some r)
  then show ?thesis
    by (simp add: update_item_def get_item_map_key [OF assms])
qed

lemma get_item_put_item:
  "get_item (put_item tbl item) k' =
     (if k' = sessionId item then Some item else get_item tbl k')"
proof (cases "get_item tbl (sessionId item)")
  case None
  then show ?thesis
    by (auto simp: put_item_def get_item_append split: option.splits)
next
  case (Some r)
  have "get_item (map (\<lambda>r. if sessionId r = sessionId item then (\<lambda>_. item) r else r) tbl) k' =
          (if k' = sessionId item then map_option (\<lambda>_. item) (get_item tbl (sessionId item))
           else get_item tbl k')"
    by (rule get_item_map_key) simp
  with Some show ?thesis by (simp add: put_item_def)
qed

section \<open>The persistence step\<close>

text \<open>What a call that returns has written: the update of the item found, or a new item.\<close>

lemma db_call_Inr: "db_call env op x = Inr y \<longleftrightarrow> db_fault env op = None \<and> y = x"
  by (auto simp: db_call_def split: option.splits)

lemma save_update:
  assumes "get_item tbl sid = Some item"
    and "save_message_to_db env tbl sid um br = Inr tbl'"
  shows "get_item tbl' k =
      (if k = sid then Some (item
     \<lparr>messages := Some ((case messages item of None \<Rightarrow> [] | Some ms \<Rightarrow> ms) @ exchange (time_ms env) um br),
      lastMessage := Some (take 100 br),
      messageCount := Some (int (length ((case messages item of None \<Rightarrow> [] | Some ms \<Rightarrow> ms) @ exchange (time_ms env) um br))),
      updatedAt := Some (time_ms env),
      title := Some (case title item of
                        None \<Rightarrow> new_title um
                      | Some s \<Rightarrow> if s = [] \<or> s = ustr ''New Chat'' then new_title um else s)\<rparr>) else get_item tbl k)"
  using assms
  by (auto simp: save_message_to_db_def Let_def bind_exn_eq_Inr db_call_Inr get_item_update_item)

lemma save_create:
  assumes "get_item tbl sid = None"
    and "save_message_to_db env tbl sid um br = Inr tbl'"
  shows "get_item tbl' k =
      (if k = sid then Some
               \<lparr>sessionId = sid,
                title = Some (new_title um),
                messages = Some (exchange (time_ms env) um br),
                lastMessage = Some (take 100 br),
                messageCount = Some 2,
                createdAt = Some (time_ms env),
                updatedAt = Some (time_ms env)\<rparr> else get_item tbl k)"
  using assms
  by (auto simp: save_message_to_db_def Let_def bind_exn_eq_Inr db_call_Inr get_item_put_item)


lemma length_exchange [simp]: "length (exchange t um br) = 2"
  by (simp add: exchange_def)

lemma new_title_eq: "new_title um = (if um = [] then ustr ''New Chat'' else take 50 um)"
  by (simp add: new_title_def)

text \<open>
  C3. Every call of \<open>save_message_to_db\<close> that writes (the update branch and the create
  branch alike) leaves under the session's key an item whose \<open>messageCount\<close> is the
  length of its \<open>messages\<close>: 2 when there was no item, and the length of the messages
  there were plus 2 when there was one.
\<close>

theorem message_count_is_length:
  assumes "save_message_to_db env tbl sid um br = Inr tbl'"
  shows "\<exists>item' msgs. get_item tbl' sid = Some item' \<and> messages item' = Some msgs \<and>
     messageCount item' = Some (int (length msgs)) \<and>
     length msgs =
       (case get_item tbl sid of
          None \<Rightarrow> 2
        | Some item \<Rightarrow> length (case messages item of None \<Rightarrow> [] | Some ms \<Rightarrow> ms) + 2)"
proof (cases "get_item tbl sid")
  case None
  from save_create [OF None assms, of sid] None show ?thesis by simp
next
  case (Some item)
  from save_update [OF Some assms, of sid] Some show ?thesis by simp
qed

text \<open>
  C5, as amended. After a call that writes, the title is: for an existing item, its
  title, unless that is absent, empty or \<open>New Chat\<close>, and then the first 50 characters of
  the user message, or \<open>New Chat\<close> when the message is empty; for a new item, the first 50
  characters of the user message, or \<open>New Chat\<close> when the message is empty. Any following
  call for the same session leaves that title as it is unless it is \<open>New Chat\<close>.
\<close>

theorem title_rule:
  assumes "save_message_to_db env tbl sid um br = Inr tbl1"
  shows "\<exists>item1. get_item tbl1 sid = Some item1 \<and>
     title item1 = Some
       (case get_item tbl sid of
          None \<Rightarrow> (if um = [] then ustr ''New Chat'' else take 50 um)
        | Some item \<Rightarrow>
            (case title item of
               None \<Rightarrow> (if um = [] then ustr ''New Chat'' else take 50 um)
             | Some s \<Rightarrow>
                 if s = [] \<or> s = ustr ''New Chat''
                 then (if um = [] then ustr ''New Chat'' else take 50 um)
                 else s)) \<and>
     (\<forall>env' um' br' tbl2. save_message_to_db env' tbl1 sid um' br' = Inr tbl2 \<longrightarrow>
        (\<exists>item2. get_item tbl2 sid = Some item2 \<and>
           title item2 =
             (if title item1 = Some (ustr ''New Chat'')
              then Some (if um' = [] then ustr ''New Chat'' else take 50 um')
              else title item1)))"
proof -
  obtain item1 where item1: "get_item tbl1 sid = Some item1"
    and t1: "title item1 = Some
       (case get_item tbl sid of
          None \<Rightarrow> new_title um
        | Some item \<Rightarrow>
            (case title item of
               None \<Rightarrow> new_title um
             | Some s \<Rightarrow> if s = [] \<or> s = ustr ''New Chat'' then new_title um else s))"
  proof (cases "get_item tbl sid")
    case None
    from save_create [OF None assms, of sid] None that show ?thesis by simp
  next
    case (Some item)
    from save_update [OF Some assms, of sid] Some that show ?thesis by simp
  qed
  from t1 obtain s1 where s1: "title item1 = Some s1" and ne: "s1 \<noteq> []"
    by (auto simp: new_title_eq ustr_def split: option.splits if_splits)
  have second: "\<exists>item2. get_item tbl2 sid = Some item2 \<and>
           title item2 =
             (if title item1 = Some (ustr ''New Chat'')
              then Some (new_title um') else title item1)"
    if "save_message_to_db env' tbl1 sid um' br' = Inr tbl2" for env' um' br' tbl2
    using save_update [OF item1 that, of sid] s1 ne by simp
  from item1 t1 second show ?thesis
    unfolding new_title_eq by blast
qed

text \<open>A run of calls for a session that has an item keeps the item's \<open>createdAt\<close>.\<close>

lemma save_all_keeps_createdAt:
  assumes "get_item tbl sid = Some item" and "save_all tbl sid calls = Inr tbl'"
  shows "\<exists>item'. get_item tbl' sid = Some item' \<and> createdAt item' = createdAt item
           \<and> sessionId item' = sessionId item"
  using assms
proof (induction calls arbitrary: tbl item)
  case Nil
  then show ?case by simp
next
  case (Cons c calls)
  obtain env um br where c: "c = (env, um, br)" by (cases c)
  from Cons.prems(2) c obtain tbl1 where
    one: "save_message_to_db env tbl sid um br = Inr tbl1"
    and rest: "save_all tbl1 sid calls = Inr tbl'"
    by (auto elim!: bind_exn_InrE)
  from save_update [OF Cons.prems(1) one, of sid]
  obtain item1 where item1: "get_item tbl1 sid = Some item1"
    and same: "createdAt item1 = createdAt item" "sessionId item1 = sessionId item"
    by simp
  from Cons.IH [OF item1 rest] same show ?case by simp
qed

text \<open>
  C10. An update of an existing item changes at most its \<open>messages\<close>, \<open>lastMessage\<close>,
  \<open>messageCount\<close>, \<open>updatedAt\<close> and \<open>title\<close>; the items of other sessions are as they were;
  and after any run of further calls for the same session the item still has the
  \<open>createdAt\<close> and the \<open>sessionId\<close> it had before the update.
\<close>

theorem update_keeps_other_fields:
  assumes "get_item tbl sid = Some item"
    and "save_message_to_db env tbl sid um br = Inr tbl1"
    and "save_all tbl1 sid calls = Inr tbl'"
  shows "(\<exists>m l c u t. get_item tbl1 sid =
            Some (item\<lparr>messages := m, lastMessage := l, messageCount := c,
                       updatedAt := u, title := t\<rparr>)) \<and>
         (\<forall>k. k \<noteq> sid \<longrightarrow> get_item tbl1 k = get_item tbl k) \<and>
         (\<exists>item'. get_item tbl' sid = Some item' \<and> createdAt item' = createdAt item
            \<and> sessionId item' = sessionId item)"
proof (intro conjI allI impI)
  from save_update [OF assms(1,2), of sid]
  show "\<exists>m l c u t. get_item tbl1 sid =
          Some (item\<lparr>messages := m, lastMessage := l, messageCount := c,
                     updatedAt := u, title := t\<rparr>)"
    by (simp only: simp_thms if_True) blast
next
  fix k :: json
  assume "k \<noteq> sid"
  with save_update [OF assms(1,2), of k] show "get_item tbl1 k = get_item tbl k" by simp
next
  have "save_all tbl sid ((env, um, br) # calls) = Inr tbl'"
    using assms(2,3) by simp
  from save_all_keeps_createdAt [OF assms(1) this]
  show "\<exists>item'. get_item tbl' sid = Some item' \<and> createdAt item' = createdAt item
               \<and> sessionId item' = sessionId item" .
qed

section \<open>The persistence step on a first and a second exchange\<close>

lemma calm_env_simps [simp]:
  "aws_request_id (calm_env s) = ustr ''req-1''"
  "time_ms (calm_env s) = 1000"
  "db_fault (calm_env s) = (\<lambda>op. None)"
  "invoke_agent (calm_env s) = (\<lambda>session_id text. Inr s)"
  by (simp_all add: calm_env_def)

lemma first_save_run:
  "save_message_to_db (calm_env idle_stream) [] (JStr (ustr ''s1'')) (ustr ''hi'') (ustr ''hello'')
     = Inr saved_once"
  by (simp add: save_message_to_db_def db_call_def put_item_def new_title_def saved_once_def
      ustr_def)

lemma second_save_run:
  "save_message_to_db ((calm_env idle_stream)\<lparr>time_ms := 2000\<rparr>) saved_once (JStr (ustr ''s1''))
     (ustr ''more'') (ustr ''sure'')
     = Inr saved_twice"
  by (simp add: save_message_to_db_def db_call_def update_item_def saved_once_def
      saved_twice_def ustr_def exchange_def)

text \<open>The second exchange of a session: four messages, and a count of 4.\<close>

theorem message_count_is_length_witness:
  "save_message_to_db ((calm_env idle_stream)\<lparr>time_ms := 2000\<rparr>) saved_once (JStr (ustr ''s1''))
     (ustr ''more'') (ustr ''sure'') = Inr saved_twice \<and>
   (\<exists>item' msgs. get_item saved_twice (JStr (ustr ''s1'')) = Some item' \<and>
      messages item' = Some msgs \<and> messageCount item' = Some 4 \<and> length msgs = 4)"
proof -
  from message_count_is_length [OF second_save_run]
  have "\<exists>item' msgs. get_item saved_twice (JStr (ustr ''s1'')) = Some item' \<and>
      messages item' = Some msgs \<and> messageCount item' = Some (int (length msgs)) \<and>
      length msgs = 4"
    by (simp add: saved_once_def)
  then have "\<exists>item' msgs. get_item saved_twice (JStr (ustr ''s1'')) = Some item' \<and>
      messages item' = Some msgs \<and> messageCount item' = Some 4 \<and> length msgs = 4"
    by auto
  with second_save_run show ?thesis by (rule conjI)
qed

text \<open>Two exchanges in a new session: the title is the first message, both times.\<close>

theorem title_rule_witness:
  "save_message_to_db (calm_env idle_stream) [] (JStr (ustr ''s1'')) (ustr ''hi'') (ustr ''hello'')
     = Inr saved_once \<and>
   save_message_to_db ((calm_env idle_stream)\<lparr>time_ms := 2000\<rparr>) saved_once (JStr (ustr ''s1''))
     (ustr ''more'') (ustr ''sure'') = Inr saved_twice \<and>
   (\<exists>item1 item2. get_item saved_once (JStr (ustr ''s1'')) = Some item1 \<and>
      title item1 = Some (ustr ''hi'') \<and>
      get_item saved_twice (JStr (ustr ''s1'')) = Some item2 \<and>
      title item2 = Some (ustr ''hi''))"
proof -
  from title_rule [OF first_save_run]
  obtain item1 where 1: "get_item saved_once (JStr (ustr ''s1'')) = Some item1"
    and 2: "title item1 = Some (ustr ''hi'')"
    and 3: "\<And>env' um' br' tbl2.
        save_message_to_db env' saved_once (JStr (ustr ''s1'')) um' br' = Inr tbl2 \<Longrightarrow>
        (\<exists>item2. get_item tbl2 (JStr (ustr ''s1'')) = Some item2 \<and>
           title item2 =
             (if title item1 = Some (ustr ''New Chat'')
              then Some (if um' = [] then ustr ''New Chat'' else take 50 um')
              else title item1))"
    by (auto simp: ustr_def)
  from 3 [OF second_save_run] 2
  obtain item2 where "get_item saved_twice (JStr (ustr ''s1'')) = Some item2"
    "title item2 = Some (ustr ''hi'')"
    by auto
  with 1 2 first_save_run second_save_run show ?thesis by blast
qed

text \<open>
  C5 as stated does not hold for an empty user message: an item with an empty title is
  given the title \<open>New Chat\<close> (line 167), not the first 50 characters of the message,
  which are the empty string.
\<close>

theorem title_of_empty_message:
  "save_message_to_db (calm_env idle_stream) [(key_only (JStr (ustr ''s1'')))\<lparr>title := Some []\<rparr>]
     (JStr (ustr ''s1'')) [] (ustr ''ok'')
   = Inr [\<lparr>sessionId = JStr (ustr ''s1''),
           title = Some (ustr ''New Chat''),
           messages = Some (exchange 1000 [] (ustr ''ok'')),
           lastMessage = Some (ustr ''ok''),
           messageCount = Some 2,
           createdAt = None,
           updatedAt = Some 1000\<rparr>] \<and>
   ustr ''New Chat'' \<noteq> take 50 []"
  by (simp add: save_message_to_db_def db_call_def update_item_def key_only_def new_title_def
      ustr_def exchange_def)

text \<open>The second exchange keeps the \<open>createdAt\<close> of the first, 1000.\<close>

theorem update_keeps_other_fields_witness:
  "get_item saved_once (JStr (ustr ''s1'')) = Some (hd saved_once) \<and>
   save_message_to_db ((calm_env idle_stream)\<lparr>time_ms := 2000\<rparr>) saved_once (JStr (ustr ''s1''))
     (ustr ''more'') (ustr ''sure'') = Inr saved_twice \<and>
   save_all saved_twice (JStr (ustr ''s1'')) [] = Inr saved_twice \<and>
   (\<exists>m l c u t. get_item saved_twice (JStr (ustr ''s1'')) =
            Some ((hd saved_once)\<lparr>messages := m, lastMessage := l, messageCount := c,
                       updatedAt := u, title := t\<rparr>)) \<and>
   get_item saved_twice (JStr (ustr ''other'')) = get_item saved_once (JStr (ustr ''other'')) \<and>
   (\<exists>item'. get_item saved_twice (JStr (ustr ''s1'')) = Some item' \<and>
      createdAt item' = Some 1000)"
proof -
  have h1: "get_item saved_once (JStr (ustr ''s1'')) = Some (hd saved_once)"
    by (simp add: saved_once_def)
  have h3: "save_all saved_twice (JStr (ustr ''s1'')) [] = Inr saved_twice" by simp
  have c: "createdAt (hd saved_once) = Some 1000" by (simp add: saved_once_def)
  have ne: "JStr (ustr ''other'') \<noteq> JStr (ustr ''s1'')" by simp
  from update_keeps_other_fields [OF h1 second_save_run h3] c ne h1 second_save_run h3
  show ?thesis by (simp only:) blast
qed

section \<open>The send handler and a failing store\<close>

lemma save_ignores_agent [simp]:
  "save_message_to_db (env\<lparr>invoke_agent := f\<rparr>) tbl sid um br = save_message_to_db env tbl sid um br"
  by (simp add: save_message_to_db_def db_call_def)

lemma session_of_db_fault [simp]:
  "session_of (env\<lparr>db_fault := f\<rparr>) body_dict = session_of env body_dict"
  by (simp add: session_of_def split: option.splits)

text \<open>
  C4. A send request with a message that is not empty after trimming, for which the agent
  is invoked and its stream is read without an exception, is answered 200 with the
  accumulated text (or the fixed text when that is blank) and the session, whatever
  exception the persistence step raises; the table is left as it was, and the response
  is the one the handler gives when the store does not fail.
\<close>

theorem save_failure_is_swallowed:
  assumes "get_stripped body_dict (ustr ''message'') = Inr user_message"
    and "user_message \<noteq> []"
    and "invoke_agent env (session_of env body_dict) user_message = Inr s"
    and "accumulate (started s) (events s) (ending s) [] = Inr streamed"
    and "save_message_to_db env tbl (session_of env body_dict) user_message
           (strip (if strip streamed = [] then no_response_text else streamed)) = Inl save_error"
  shows "handle_send_message env tbl body_dict =
           (Inr \<lparr>statusCode = 200, isBase64Encoded = Some False,
                  headers = Some send_headers,
                  body = JObj
                    [(ustr ''response'',
                      JStr (strip (if strip streamed = [] then no_response_text else streamed))),
                     (ustr ''sessionId'', session_of env body_dict)]\<rparr>,
            tbl)
         \<and> fst (handle_send_message env tbl body_dict)
             = fst (handle_send_message (env\<lparr>db_fault := (\<lambda>op. None)\<rparr>) tbl body_dict)"
proof -
  let ?r = "\<lparr>statusCode = 200, isBase64Encoded = Some False,
                  headers = Some send_headers,
                  body = JObj
                    [(ustr ''response'',
                      JStr (strip (if strip streamed = [] then no_response_text else streamed))),
                     (ustr ''sessionId'', session_of env body_dict)]\<rparr>"
  have a: "handle_send_message env tbl body_dict = (Inr ?r, tbl)"
    using assms by (simp add: handle_send_message_def Let_def)
  have b: "fst (handle_send_message (env\<lparr>db_fault := (\<lambda>op. None)\<rparr>) tbl body_dict) = Inr ?r"
    using assms(1-4) by (simp add: handle_send_message_def Let_def split: sum.splits)
  from a b show ?thesis by simp
qed

text \<open>The loop reads the events up to the first one outside the budget, and no further.\<close>

lemma accumulate_cut:
  "accumulate start evs fin acc =
     accumulate start (takeWhile (in_budget start) evs)
       (if list_all (in_budget start) evs then fin else Finished) acc"
  by (induction start evs fin acc rule: accumulate.induct)
     (auto simp: in_budget_def split: event.splits option.splits payload.splits)

lemma list_all_takeWhile: "list_all P (takeWhile P xs)"
  by (induction xs) auto

lemma strip_hi: "strip (ustr ''hi'') = ustr ''hi''"
  by (simp add: strip_def ustr_def is_space_def)

lemma strip_hello: "strip (ustr ''hello'') = ustr ''hello''"
  by (simp add: strip_def ustr_def is_space_def)

text \<open>A store that fails on every call: the answer is 200 with the agent's text.\<close>

theorem save_failure_is_swallowed_witness:
  "handle_send_message
     ((calm_env (one_chunk 1 (ustr ''hello'')))\<lparr>db_fault := (\<lambda>op. Some (OtherError (ustr ''down'')))\<rparr>)
     saved_once
     [(ustr ''message'', JStr (ustr ''hi'')), (ustr ''sessionId'', JStr (ustr ''s1''))]
   = (Inr \<lparr>statusCode = 200, isBase64Encoded = Some False, headers = Some send_headers,
           body = JObj [(ustr ''response'', JStr (ustr ''hello'')),
                        (ustr ''sessionId'', JStr (ustr ''s1''))]\<rparr>,
      saved_once)"
proof -
  let ?env = "(calm_env (one_chunk 1 (ustr ''hello'')))\<lparr>db_fault := (\<lambda>op. Some (OtherError (ustr ''down'')))\<rparr>"
  let ?body = "[(ustr ''message'', JStr (ustr ''hi'')), (ustr ''sessionId'', JStr (ustr ''s1''))]"
  have h1: "get_stripped ?body (ustr ''message'') = Inr (ustr ''hi'')"
    by (simp add: get_stripped_def strip_hi)
  have h2: "ustr ''hi'' \<noteq> []" by (simp add: ustr_def)
  have h3: "invoke_agent ?env (session_of ?env ?body) (ustr ''hi'') = Inr (one_chunk 1 (ustr ''hello''))"
    by simp
  have h4: "accumulate (started (one_chunk 1 (ustr ''hello''))) (events (one_chunk 1 (ustr ''hello'')))
              (ending (one_chunk 1 (ustr ''hello''))) [] = Inr (ustr ''hello'')"
    by (simp add: one_chunk_def)
  have ne: "ustr ''hello'' \<noteq> []" by (simp add: ustr_def)
  have h5: "save_message_to_db ?env saved_once (session_of ?env ?body) (ustr ''hi'')
              (strip (if strip (ustr ''hello'') = [] then no_response_text else ustr ''hello''))
            = Inl (OtherError (ustr ''down''))"
    by (simp add: save_message_to_db_def db_call_def)
  from save_failure_is_swallowed [OF h1 h2 h3 h4 h5, THEN conjunct1]
  show ?thesis by (simp add: strip_hello ne session_of_def)
qed

section \<open>The send handler and the 30 seconds\<close>

lemma cut_stream_simps [simp]:
  "started (cut_stream s) = started s"
  "events (cut_stream s) = takeWhile (in_budget (started s)) (events s)"
  "ending (cut_stream s) =
     (if list_all (in_budget (started s)) (events s) then ending s else Finished)"
  by (simp_all add: cut_stream_def)

lemma session_of_invoke_agent [simp]:
  "session_of (env\<lparr>invoke_agent := f\<rparr>) body_dict = session_of env body_dict"
  by (simp add: session_of_def split: option.splits)

lemma accumulate_cut_stream:
  "accumulate (started (cut_stream s)) (events (cut_stream s)) (ending (cut_stream s)) acc
     = accumulate (started s) (events s) (ending s) acc"
  using accumulate_cut [of "started s" "events s" "ending s" acc] by simp

lemma accumulate_all_in_budget:
  "list_all (in_budget start) evs \<Longrightarrow>
   accumulate start evs fin acc =
     (case fin of Finished \<Rightarrow> Inr (acc @ concat (map chunk_text evs)) | Raises e \<Rightarrow> Inl e)"
  by (induction start evs fin acc rule: accumulate.induct)
     (auto simp: in_budget_def chunk_text_def
        split: event.splits option.splits payload.splits stream_end.splits)

text \<open>
  C6, as amended. The budget of 30 seconds runs from the clock reading taken before the
  loop over the stream starts (line 80), which is before the first chunk is received.
  The loop stops at the first event received more than 30 seconds after that reading;
  the completion is the text of the decodable chunks received before it, and that event
  and all later ones are dropped. An exception of the stream is raised only when it
  comes before any such event. Nothing marks the cut: the handler returns what it returns
  for the stream that ends where the cut is.
\<close>

theorem budget_runs_from_stream_start:
  "accumulate (started s) (events s) (ending s) [] =
     (case (if list_all (in_budget (started s)) (events s) then ending s else Finished) of
        Finished \<Rightarrow> Inr (concat (map chunk_text (takeWhile (in_budget (started s)) (events s))))
      | Raises e \<Rightarrow> Inl e)
   \<and> handle_send_message (env\<lparr>invoke_agent := (\<lambda>sid text. Inr s)\<rparr>) tbl body_dict
       = handle_send_message (env\<lparr>invoke_agent := (\<lambda>sid text. Inr (cut_stream s))\<rparr>) tbl body_dict"
proof
  have "accumulate (started s) (events s) (ending s) [] =
          accumulate (started s) (takeWhile (in_budget (started s)) (events s))
            (if list_all (in_budget (started s)) (events s) then ending s else Finished) []"
    by (rule accumulate_cut)
  also have "\<dots> =
     (case (if list_all (in_budget (started s)) (events s) then ending s else Finished) of
        Finished \<Rightarrow> Inr ([] @ concat (map chunk_text (takeWhile (in_budget (started s)) (events s))))
      | Raises e \<Rightarrow> Inl e)"
    by (rule accumulate_all_in_budget) (rule list_all_takeWhile)
  finally show "accumulate (started s) (events s) (ending s) [] =
     (case (if list_all (in_budget (started s)) (events s) then ending s else Finished) of
        Finished \<Rightarrow> Inr (concat (map chunk_text (takeWhile (in_budget (started s)) (events s))))
      | Raises e \<Rightarrow> Inl e)"
    by (simp split: stream_end.splits)
next
  show "handle_send_message (env\<lparr>invoke_agent := (\<lambda>sid text. Inr s)\<rparr>) tbl body_dict
       = handle_send_message (env\<lparr>invoke_agent := (\<lambda>sid text. Inr (cut_stream s))\<rparr>) tbl body_dict"
  proof (cases "get_stripped body_dict (ustr ''message'')")
    case (Inl e)
    then show ?thesis by (simp add: handle_send_message_def)
  next
    case (Inr user_message)
    then show ?thesis
      by (cases "user_message = []")
         (simp_all add: handle_send_message_def Let_def accumulate_cut_stream
            del: cut_stream_simps split: sum.splits exn.splits)
  qed
qed

text \<open>
  C6 as stated does not hold: a stream whose first chunk arrives 31 seconds after the
  loop's start. Measured from the arrival of the first chunk, the chunk is read and the
  completion is its text; the handler drops it and answers with the fixed text for an
  empty completion.
\<close>

theorem first_chunk_after_30s_is_dropped:
  "fst (handle_send_message (calm_env (one_chunk 31 (ustr ''hello''))) []
          [(ustr ''message'', JStr (ustr ''hi''))])
     = Inr \<lparr>statusCode = 200, isBase64Encoded = Some False, headers = Some send_headers,
            body = JObj [(ustr ''response'', JStr no_response_text),
                         (ustr ''sessionId'', JStr (ustr ''session-req-1''))]\<rparr>
   \<and> accumulate_from_first_chunk (events (one_chunk 31 (ustr ''hello'')))
        (ending (one_chunk 31 (ustr ''hello''))) = Inr (ustr ''hello'')"
  by (simp add: handle_send_message_def get_stripped_def strip_hi session_of_def one_chunk_def
      accumulate_from_first_chunk_def Let_def strip_def [of "[]"]
      no_response_text_def strip_def is_space_def ustr_def split: sum.splits)

text \<open>
  Chunks at 10, 30, 31 and 32 seconds, an undecodable one at 29, and a stream that would
  raise at its end: the completion is the text of the chunks at 10 and 30.
\<close>

theorem budget_runs_from_stream_start_witness:
  "accumulate 0 [(10, ChunkEvent (Some (Utf8 (ustr ''a'')))), (20, OtherEvent),
                 (29, ChunkEvent (Some Undecodable)),
                 (30, ChunkEvent (Some (Utf8 (ustr ''b'')))),
                 (31, ChunkEvent (Some (Utf8 (ustr ''c'')))),
                 (32, ChunkEvent (Some (Utf8 (ustr ''d''))))] (Raises (OtherError [])) []
     = Inr (ustr ''ab'')"
proof -
  let ?s = "\<lparr>started = 0,
             events = [(10, ChunkEvent (Some (Utf8 (ustr ''a'')))), (20, OtherEvent),
                 (29, ChunkEvent (Some Undecodable)),
                 (30, ChunkEvent (Some (Utf8 (ustr ''b'')))),
                 (31, ChunkEvent (Some (Utf8 (ustr ''c'')))),
                 (32, ChunkEvent (Some (Utf8 (ustr ''d''))))],
             ending = Raises (OtherError [])\<rparr>"
  from budget_runs_from_stream_start [of ?s, THEN conjunct1]
  show ?thesis by (simp add: in_budget_def chunk_text_def ustr_def)
qed

section \<open>The rename, load and list handlers\<close>

text \<open>
  C7, as amended. For a rename request whose \<open>title\<close> is absent or a string: when
  \<open>sessionId\<close> is missing (or is a value that counts as false) the response is 400; when the
  title is missing or empty after trimming the response is 400; in both cases the table
  is as it was. Whatever the request, a response of 400 leaves the table as it was.
\<close>

theorem rename_rejects:
  assumes "get_stripped body_dict (ustr ''title'') = Inr t"
  shows "((map_of body_dict (ustr ''sessionId'') = None \<or>
            (\<exists>v. map_of body_dict (ustr ''sessionId'') = Some v \<and> \<not> truthy v)) \<longrightarrow>
            handle_rename_conversation env tbl body_dict
              = (error_reply 400 (ustr ''sessionId required''), tbl)) \<and>
         (t = [] \<longrightarrow>
            statusCode (fst (handle_rename_conversation env tbl body_dict)) = 400 \<and>
            snd (handle_rename_conversation env tbl body_dict) = tbl) \<and>
         (statusCode (fst (handle_rename_conversation env tbl body_dict)) = 400 \<longrightarrow>
            snd (handle_rename_conversation env tbl body_dict) = tbl)"
  using assms
  by (auto simp: handle_rename_conversation_def error_reply_def reply_def success_reply_def
      split: option.splits sum.splits)

text \<open>A title of one space, without and with a session: 400 twice, the table unchanged.\<close>

theorem rename_rejects_witness:
  "handle_rename_conversation (calm_env idle_stream) saved_once [(ustr ''title'', JStr (ustr '' ''))]
     = (error_reply 400 (ustr ''sessionId required''), saved_once) \<and>
   statusCode (fst (handle_rename_conversation (calm_env idle_stream) saved_once
      [(ustr ''sessionId'', JStr (ustr ''s1'')), (ustr ''title'', JStr (ustr '' ''))])) = 400 \<and>
   snd (handle_rename_conversation (calm_env idle_stream) saved_once
      [(ustr ''sessionId'', JStr (ustr ''s1'')), (ustr ''title'', JStr (ustr '' ''))]) = saved_once"
proof -
  have sp: "strip (ustr '' '') = []" by (simp add: strip_def ustr_def is_space_def)
  have h1: "get_stripped [(ustr ''title'', JStr (ustr '' ''))] (ustr ''title'') = Inr []"
    by (simp add: get_stripped_def sp)
  have h2: "get_stripped [(ustr ''sessionId'', JStr (ustr ''s1'')), (ustr ''title'', JStr (ustr '' ''))]
              (ustr ''title'') = Inr []"
    by (simp add: get_stripped_def sp)
  from rename_rejects [OF h1, of "calm_env idle_stream" saved_once]
       rename_rejects [OF h2, of "calm_env idle_stream" saved_once]
  show ?thesis by simp
qed

text \<open>
  C7 as stated does not hold for every rename request: with no \<open>sessionId\<close> and a title
  that is a number, line 356 raises before the check of the session (line 358), and the
  response is 500, not 400.
\<close>

theorem rename_number_title_is_500:
  "handle_rename_conversation (calm_env idle_stream) saved_once [(ustr ''title'', JInt 5)]
     = (error_reply 500 (str_exn (calm_env idle_stream) AttributeError), saved_once)
   \<and> map_of [(ustr ''title'', JInt 5)] (ustr ''sessionId'') = None"
  by (simp add: handle_rename_conversation_def get_stripped_def)

text \<open>
  C8. A load request with a \<open>sessionId\<close> (a value that counts as true) for which the store,
  read without failure, has no item is answered 200 with an empty list of messages.
\<close>

theorem load_missing_record:
  assumes "map_of body_dict (ustr ''sessionId'') = Some session_id"
    and "truthy session_id"
    and "db_fault env GetItem = None"
    and "get_item tbl session_id = None"
  shows "handle_load_conversation env tbl body_dict = reply 200 (JObj [(ustr ''messages'', JArr [])])
         \<and> statusCode (handle_load_conversation env tbl body_dict) = 200"
  using assms by (simp add: handle_load_conversation_def db_call_def reply_def)

text \<open>Session \<open>s2\<close> in a table that has session \<open>s1\<close> only.\<close>

theorem load_missing_record_witness:
  "handle_load_conversation (calm_env idle_stream) saved_once [(ustr ''sessionId'', JStr (ustr ''s2''))]
     = reply 200 (JObj [(ustr ''messages'', JArr [])])"
proof -
  have h1: "map_of [(ustr ''sessionId'', JStr (ustr ''s2''))] (ustr ''sessionId'') = Some (JStr (ustr ''s2''))"
    by simp
  have h2: "truthy (JStr (ustr ''s2''))" by (simp add: ustr_def)
  have h3: "db_fault (calm_env idle_stream) GetItem = None" by simp
  have h4: "get_item saved_once (JStr (ustr ''s2'')) = None" by (simp add: saved_once_def)
  from load_missing_record [OF h1 h2 h3 h4] show ?thesis by (rule conjunct1)
qed

section \<open>The list handler\<close>

text \<open>
  What \<open>json.dumps\<close> makes of the dict of an item: it is refused as soon as the item has
  one of the numbers, or a number in its key.
\<close>

lemma listing_json_project:
  "listing_json (project item) =
     (if updatedAt item \<noteq> None \<or> createdAt item \<noteq> None \<or> messageCount item \<noteq> None
         \<or> has_number (sessionId item)
      then Inl TypeError
      else Inr (JObj
          [(ustr ''sessionId'', sessionId item),
           (ustr ''title'', JStr (case title item of None \<Rightarrow> ustr ''New Chat'' | Some s \<Rightarrow> s)),
           (ustr ''lastMessage'', JStr (case lastMessage item of None \<Rightarrow> [] | Some s \<Rightarrow> s)),
           (ustr ''timestamp'', JInt 0),
           (ustr ''messageCount'', JInt 0)]))"
  by (auto simp: listing_json_def project_def split: option.splits)

lemma listing_json_TypeError: "listing_json x = Inl e \<Longrightarrow> e = TypeError"
  by (cases "l_timestamp x"; cases "l_messageCount x")
     (auto simp: listing_json_def split: if_splits)

lemma dumps_all_raises:
  assumes "x \<in> set xs" and "listing_json x = Inl TypeError"
  shows "dumps_all xs = Inl TypeError"
  using assms
proof (induction xs)
  case Nil
  then show ?case by simp
next
  case (Cons y ys)
  show ?case
  proof (cases "listing_json y")
    case (Inl e)
    with listing_json_TypeError [of y e] show ?thesis by simp
  next
    case (Inr j)
    with Cons.prems have "x \<in> set ys" by auto
    from Cons.IH [OF this Cons.prems(2)] Inr show ?thesis by simp
  qed
qed

lemma dumps_all_returns:
  assumes "\<And>x. x \<in> set xs \<Longrightarrow> listing_json x = Inr (g x)"
  shows "dumps_all xs = Inr (map g xs)"
  using assms by (induction xs) simp_all

text \<open>
  The list the handler builds before it serialises it: one dict per item, in descending
  order of the timestamp, which is the item's \<open>updatedAt\<close>, else its \<open>createdAt\<close>, else 0.
\<close>

lemma sorted_listings_mset: "mset (sorted_listings tbl) = mset (map project tbl)"
  by (simp add: sorted_listings_def)

lemma sorted_listings_set: "set (sorted_listings tbl) = project ` set tbl"
  by (simp add: sorted_listings_def)

lemma sorted_uminus_map:
  fixes xs :: "'a list" and f :: "'a \<Rightarrow> int"
  shows "sorted (map (\<lambda>x. - f x) xs) \<longleftrightarrow> sorted_wrt (\<lambda>x y. f x \<ge> f y) xs"
  by (induction xs) auto

lemma sorted_listings_descending:
  "sorted_wrt (\<lambda>x y. num_val (l_timestamp x) \<ge> num_val (l_timestamp y)) (sorted_listings tbl)"
proof -
  have "sorted (map (\<lambda>x. - num_val (l_timestamp x)) (sorted_listings tbl))"
    unfolding sorted_listings_def by (rule sorted_sort_key)
  then show ?thesis by (simp only: sorted_uminus_map)
qed

lemma project_timestamp:
  "num_val (l_timestamp (project item)) =
     (case updatedAt item of
        Some u \<Rightarrow> u
      | None \<Rightarrow> (case createdAt item of Some c \<Rightarrow> c | None \<Rightarrow> 0))"
  by (simp add: project_def split: option.splits)

text \<open>
  The response, when the scan does not fail: 500 as soon as one item has an \<open>updatedAt\<close>,
  a \<open>createdAt\<close> or a \<open>messageCount\<close> (or a number in its key); otherwise 200 with the dicts
  of the items, all with timestamp 0 and so in the order of the scan.
\<close>

lemma list_conversations_result:
  assumes "db_fault env Scan = None"
  shows "handle_list_conversations env tbl =
     (if \<exists>item \<in> set tbl. updatedAt item \<noteq> None \<or> createdAt item \<noteq> None
            \<or> messageCount item \<noteq> None \<or> has_number (sessionId item)
      then error_reply 500 (str_exn env TypeError)
      else reply 200 (JObj [(ustr ''conversations'', JArr (map (\<lambda>item. JObj
          [(ustr ''sessionId'', sessionId item),
           (ustr ''title'', JStr (case title item of None \<Rightarrow> ustr ''New Chat'' | Some s \<Rightarrow> s)),
           (ustr ''lastMessage'', JStr (case lastMessage item of None \<Rightarrow> [] | Some s \<Rightarrow> s)),
           (ustr ''timestamp'', JInt 0),
           (ustr ''messageCount'', JInt 0)]) tbl))]))"
proof (cases "\<exists>item \<in> set tbl. updatedAt item \<noteq> None \<or> createdAt item \<noteq> None
            \<or> messageCount item \<noteq> None \<or> has_number (sessionId item)")
  case True
  then obtain item where item: "item \<in> set tbl"
    and bad: "updatedAt item \<noteq> None \<or> createdAt item \<noteq> None
            \<or> messageCount item \<noteq> None \<or> has_number (sessionId item)"
    by blast
  from bad have "listing_json (project item) = Inl TypeError"
    by (simp only: listing_json_project if_True)
  moreover from item have "project item \<in> set (sorted_listings tbl)"
    by (simp add: sorted_listings_set)
  ultimately have "dumps_all (sorted_listings tbl) = Inl TypeError"
    by (rule dumps_all_raises [rotated])
  with True assms show ?thesis
    by (simp add: handle_list_conversations_def)
next
  case False
  let ?g = "\<lambda>item. JObj
          [(ustr ''sessionId'', sessionId item),
           (ustr ''title'', JStr (case title item of None \<Rightarrow> ustr ''New Chat'' | Some s \<Rightarrow> s)),
           (ustr ''lastMessage'', JStr (case lastMessage item of None \<Rightarrow> [] | Some s \<Rightarrow> s)),
           (ustr ''timestamp'', JInt 0),
           (ustr ''messageCount'', JInt 0)]"
  from False have zero: "num_val (l_timestamp (project item)) = 0" if "item \<in> set tbl" for item
    using that by (auto simp: project_timestamp)
  have "map (\<lambda>x. - num_val (l_timestamp x)) (map project tbl) = map (\<lambda>x. 0) tbl"
    using zero by simp
  then have "sorted (map (\<lambda>x. - num_val (l_timestamp x)) (map project tbl))"
    by (simp only: sorted_map) (simp add: sorted_wrt_iff_nth_less)
  then have same: "sorted_listings tbl = map project tbl"
    unfolding sorted_listings_def by (rule sort_key_id_if_sorted)
  have "dumps_all (map project tbl) = Inr (map ?g tbl)"
    using False by (induction tbl) (simp_all add: listing_json_project)
  with same False assms show ?thesis
    by (simp add: handle_list_conversations_def)
qed

text \<open>
  C9. The claim has the list handler return, for every state of the store, one projection
  per record, sorted in descending order of the timestamp. The handler builds that list,
  but does not return it for the table a first exchange leaves: the item's \<open>updatedAt\<close> and
  \<open>messageCount\<close> are read as \<open>Decimal\<close>, \<open>json.dumps\<close> at line 313 raises, and the response
  is 500.
\<close>

theorem list_after_first_exchange_is_500:
  "handle_list_conversations (calm_env idle_stream) saved_once
     = error_reply 500 (str_exn (calm_env idle_stream) TypeError)
   \<and> statusCode (handle_list_conversations (calm_env idle_stream) saved_once) = 500"
  by (simp add: handle_list_conversations_def sorted_listings_def saved_once_def project_def
      listing_json_def error_reply_def reply_def)

text \<open>Two items without numbers are listed, in the order of the scan.\<close>

lemma list_of_titles_only:
  "handle_list_conversations (calm_env idle_stream) titles_only =
     reply 200 (JObj [(ustr ''conversations'', JArr
       [JObj [(ustr ''sessionId'', JStr (ustr ''a'')), (ustr ''title'', JStr (ustr ''first'')),
              (ustr ''lastMessage'', JStr (ustr ''bye'')), (ustr ''timestamp'', JInt 0),
              (ustr ''messageCount'', JInt 0)],
        JObj [(ustr ''sessionId'', JStr (ustr ''b'')), (ustr ''title'', JStr (ustr ''New Chat'')),
              (ustr ''lastMessage'', JStr []), (ustr ''timestamp'', JInt 0),
              (ustr ''messageCount'', JInt 0)]])])"
proof -
  have h: "db_fault (calm_env idle_stream) Scan = None" by simp
  show ?thesis
    unfolding list_conversations_result [OF h]
    by (simp add: titles_only_def key_only_def)
qed

text \<open>The order built for the table with mixed attributes: 7, 5, 0.\<close>

lemma mixed_table_order:
  "map (\<lambda>x. (l_sessionId x, l_timestamp x)) (sorted_listings mixed_table) =
     [(JStr (ustr ''c''), Decimal 7), (JStr (ustr ''a''), Decimal 5), (JStr (ustr ''b''), PyInt 0)]"
  by (simp add: sorted_listings_def mixed_table_def project_def key_only_def)

end
